theory Spec2Isabelle
  imports Main "HOL-Library.Sublist"
begin

section \<open>Data model of the chat session controller (src/components/ui/Chat.tsx)\<close>

text \<open>
  The TypeScript type \<^verbatim>\<open>Message\<close> has two required string fields and four optional
  ones. An optional field is an \<open>option\<close>: \<open>None\<close> is JavaScript's \<open>undefined\<close>. The field
  \<^verbatim>\<open>text\<close> is written \<open>text_m\<close> here.
\<close>

datatype source_tag = websocket | voice | user

record Message =
  sender :: string
  text_m :: string
  audio :: "string option"
  loading :: "bool option"
  avatarUrl :: "string option"
  source :: "source_tag option"

text \<open>
  The parsed payload \<^verbatim>\<open>data\<close> of a socket message, seen through the members the handler
  reads. Members are JSON strings. A member for whose absence the handler itself
  provides (a truthiness test, \<^verbatim>\<open>||\<close>, \<^verbatim>\<open>?.\<close>, \<^verbatim>\<open>===\<close>, or string concatenation, which
  renders \<open>undefined\<close> as text) is optional; \<^verbatim>\<open>data.text\<close>, which is stored in a
  \<^verbatim>\<open>Message\<close> as it is, is a string (written \<open>text_d\<close>).
\<close>

record data =
  error :: "string option"
  event :: "string option"
  text_d :: string
  answer :: "string option"
  audio_url :: "string option"
  message :: "string option"

text \<open>The \<^verbatim>\<open>readyState\<close> of a WebSocket, and the request envelope given to \<^verbatim>\<open>JSON.stringify\<close>.\<close>

datatype readyState = CONNECTING | OPEN | CLOSING | CLOSED

record envelope =
  session_id :: string
  question :: string

text \<open>
  The component's state: the two React state cells \<^verbatim>\<open>messages\<close> and \<^verbatim>\<open>sessionId\<close>, the
  refs \<^verbatim>\<open>wsRef\<close> (\<open>None\<close> is \<open>null\<close>; of the socket only its \<^verbatim>\<open>readyState\<close> is kept) and
  \<^verbatim>\<open>reconnectAttempts\<close>, the number of pending \<^verbatim>\<open>setTimeout\<close> callbacks of \<^verbatim>\<open>onclose\<close>,
  and the envelopes handed to \<^verbatim>\<open>send\<close> so far.
\<close>

record state =
  messages :: "Message list"
  sessionId :: "string option"
  wsRef :: "readyState option"
  reconnectAttempts :: nat
  timers :: nat
  sent :: "envelope list"

definition maxReconnectAttempts :: nat where
  "maxReconnectAttempts = 5"

section \<open>JavaScript coercions used by the handlers\<close>

text \<open>Truthiness of an optional string: \<open>undefined\<close> and the empty string are falsy.\<close>

definition truthy :: "string option \<Rightarrow> bool" where
  "truthy v = (case v of None \<Rightarrow> False | Some s \<Rightarrow> s \<noteq> [])"

text \<open>String concatenation renders \<open>undefined\<close> as the text \<open>undefined\<close>.\<close>

definition js_string :: "string option \<Rightarrow> string" where
  "js_string v = (case v of None \<Rightarrow> ''undefined'' | Some s \<Rightarrow> s)"

text \<open>\<^verbatim>\<open>a || b\<close> on strings.\<close>

definition js_or :: "string option \<Rightarrow> string \<Rightarrow> string" where
  "js_or v d = (case v of None \<Rightarrow> d | Some s \<Rightarrow> if s \<noteq> [] then s else d)"

section \<open>The message handler \<^verbatim>\<open>onmessage\<close>\<close>

text \<open>
  \<^verbatim>\<open>lastMessage?.loading && lastMessage?.source === 'websocket'\<close>, where \<^verbatim>\<open>lastMessage\<close> is
  \<^verbatim>\<open>updated[updated.length - 1]\<close> (\<open>undefined\<close> on the empty array).
\<close>

definition lastLoading :: "Message list \<Rightarrow> bool" where
  "lastLoading updated =
     (updated \<noteq> [] \<and> loading (last updated) = Some True
        \<and> source (last updated) = Some websocket)"

text \<open>The resolved audio reference of the \<^verbatim>\<open>done\<close> and \<^verbatim>\<open>audio_ready\<close> branches.\<close>

definition audioUrl :: "string \<Rightarrow> string option \<Rightarrow> string option" where
  "audioUrl API_BASE u =
     (case u of
        None \<Rightarrow> None
      | Some s \<Rightarrow>
          if prefix ''http'' s then Some s
          else if s \<noteq> [] then Some (API_BASE @ s)
          else None)"

text \<open>The updater of the \<^verbatim>\<open>data.error\<close> branch.\<close>

definition on_error :: "string option \<Rightarrow> Message list \<Rightarrow> Message list" where
  "on_error e prev =
     (if lastLoading prev
      then prev[length prev - 1 :=
             \<lparr>sender = ''Bot'', text_m = ''Error: '' @ js_string e, audio = None,
              loading = Some False, avatarUrl = None, source = Some websocket\<rparr>]
      else prev)"

text \<open>The updater of the \<^verbatim>\<open>partial_text\<close> branch.\<close>

definition on_partial_text :: "string \<Rightarrow> Message list \<Rightarrow> Message list" where
  "on_partial_text t prev =
     (if lastLoading prev
      then prev[length prev - 1 :=
             (last prev)\<lparr>text_m := text_m (last prev) @ t, loading := Some True\<rparr>]
      else prev @
             [\<lparr>sender = ''Bot'', text_m = t, audio = None,
               loading = Some True, avatarUrl = None, source = Some websocket\<rparr>])"

text \<open>The fallback text of the \<^verbatim>\<open>done\<close> branch.\<close>

definition no_answer :: string where
  "no_answer = ''I couldn't generate an answer.''"

text \<open>The updater of the \<^verbatim>\<open>done\<close> branch; \<open>a\<close> is the resolved audio reference.\<close>

definition on_done :: "string option \<Rightarrow> string option \<Rightarrow> Message list \<Rightarrow> Message list" where
  "on_done ans a prev =
     (if lastLoading prev
      then prev[length prev - 1 :=
             \<lparr>sender = ''Bot'', text_m = js_or ans no_answer, audio = a,
              loading = Some False, avatarUrl = None, source = Some websocket\<rparr>]
      else prev @
             [\<lparr>sender = ''Bot'', text_m = js_or ans no_answer, audio = a,
               loading = Some False, avatarUrl = None, source = Some websocket\<rparr>])"

text \<open>
  The loop of the \<^verbatim>\<open>audio_ready\<close> branch, \<^verbatim>\<open>for (let i = updated.length - 1; i >= 0; i--)\<close>:
  the third argument is \<open>i + 1\<close>, so that \<open>0\<close> is the loop's exit.
\<close>

fun audio_ready_loop :: "string option \<Rightarrow> Message list \<Rightarrow> nat \<Rightarrow> Message list" where
  "audio_ready_loop a updated 0 = updated"
| "audio_ready_loop a updated (Suc i) =
     (if sender (updated ! i) = ''Bot'' \<and> loading (updated ! i) \<noteq> Some True
         \<and> source (updated ! i) = Some websocket
      then updated[i := (updated ! i)\<lparr>audio := a\<rparr>]
      else audio_ready_loop a updated i)"

definition on_audio_ready :: "string option \<Rightarrow> Message list \<Rightarrow> Message list" where
  "on_audio_ready a prev = audio_ready_loop a prev (length prev)"

text \<open>The updater of the \<^verbatim>\<open>audio_error\<close> branch.\<close>

definition on_audio_error :: "string option \<Rightarrow> Message list \<Rightarrow> Message list" where
  "on_audio_error m prev =
     (if lastLoading prev
      then prev[length prev - 1 :=
             \<lparr>sender = ''Bot'', text_m = ''Error generating audio: '' @ js_string m,
              audio = None, loading = Some False, avatarUrl = None,
              source = Some websocket\<rparr>]
      else prev)"

text \<open>
  The body of \<^verbatim>\<open>onmessage\<close> after the parse, as a function on the message sequence:
  the chain of \<^verbatim>\<open>if (...) { ...; return; }\<close> in the source's order.
\<close>

definition handle_data :: "string \<Rightarrow> data \<Rightarrow> Message list \<Rightarrow> Message list" where
  "handle_data API_BASE d prev =
     (if truthy (error d) then on_error (error d) prev
      else if event d = Some ''processing'' then prev
      else if event d = Some ''partial_text'' then on_partial_text (text_d d) prev
      else if event d = Some ''done''
        then on_done (answer d) (audioUrl API_BASE (audio_url d)) prev
      else if event d = Some ''audio_ready''
        then on_audio_ready (audioUrl API_BASE (audio_url d)) prev
      else if event d = Some ''audio_error'' then on_audio_error (message d) prev
      else prev)"

text \<open>
  \<^verbatim>\<open>onmessage\<close>. \<^verbatim>\<open>JSON.parse\<close> is a parameter: \<open>None\<close> is the exception that the
  \<^verbatim>\<open>try\<close>/\<^verbatim>\<open>catch\<close> turns into an early return.
\<close>

definition onmessage :: "(string \<Rightarrow> data option) \<Rightarrow> string \<Rightarrow> state \<Rightarrow> string \<Rightarrow> state" where
  "onmessage JSON_parse API_BASE s raw =
     (case JSON_parse raw of
        None \<Rightarrow> s
      | Some d \<Rightarrow> s\<lparr>messages := handle_data API_BASE d (messages s)\<rparr>)"

section \<open>Connection lifecycle\<close>

text \<open>\<^verbatim>\<open>connectWebSocket\<close> stores a fresh socket, which starts connecting.\<close>

definition connectWebSocket :: "state \<Rightarrow> state" where
  "connectWebSocket s = s\<lparr>wsRef := Some CONNECTING\<rparr>"

definition onopen :: "state \<Rightarrow> state" where
  "onopen s = s\<lparr>reconnectAttempts := 0\<rparr>"

text \<open>The message that \<^verbatim>\<open>onclose\<close> appends once the attempts are used up.\<close>

definition connection_lost :: Message where
  "connection_lost =
     \<lparr>sender = ''Bot'', text_m = ''WebSocket connection lost. Please refresh the page.'',
      audio = None, loading = Some False, avatarUrl = None, source = Some websocket\<rparr>"

text \<open>\<^verbatim>\<open>onclose\<close>: \<^verbatim>\<open>setTimeout\<close> adds a pending callback.\<close>

definition onclose :: "state \<Rightarrow> state" where
  "onclose s =
     (if reconnectAttempts s < maxReconnectAttempts
      then s\<lparr>timers := Suc (timers s)\<rparr>
      else s\<lparr>messages := messages s @ [connection_lost]\<rparr>)"

text \<open>The callback given to \<^verbatim>\<open>setTimeout\<close>: one reconnect attempt.\<close>

definition reconnect :: "state \<Rightarrow> state" where
  "reconnect s = connectWebSocket (s\<lparr>reconnectAttempts := reconnectAttempts s + 1\<rparr>)"

section \<open>\<^verbatim>\<open>sendMessage\<close>\<close>

definition try_again :: Message where
  "try_again =
     \<lparr>sender = ''Bot'', text_m = ''Connection lost. Please try again.'',
      audio = None, loading = Some False, avatarUrl = None, source = Some websocket\<rparr>"

definition user_message :: "string \<Rightarrow> Message" where
  "user_message t =
     \<lparr>sender = ''You'', text_m = t, audio = None, loading = None, avatarUrl = None,
      source = Some user\<rparr>"

definition placeholder :: Message where
  "placeholder =
     \<lparr>sender = ''Bot'', text_m = [], audio = None, loading = Some True, avatarUrl = None,
      source = Some websocket\<rparr>"

text \<open>
  The guard \<^verbatim>\<open>!sessionId || !wsRef.current || wsRef.current.readyState !== WebSocket.OPEN\<close>;
  the two \<^verbatim>\<open>setMessages\<close> updaters run in the order they are queued.
\<close>

definition sendMessage :: "state \<Rightarrow> string \<Rightarrow> state" where
  "sendMessage s t =
     (if \<not> truthy (sessionId s) \<or> wsRef s = None \<or> wsRef s \<noteq> Some OPEN
      then s\<lparr>messages := messages s @ [try_again]\<rparr>
      else s\<lparr>messages := (messages s @ [user_message t]) @ [placeholder],
             sent := sent s @ [\<lparr>session_id = js_string (sessionId s), question = t\<rparr>]\<rparr>)"

section \<open>Runs of the component\<close>

text \<open>
  What can happen to the mounted component: the browser opens the socket, delivers a
  message on it, closes it, or runs a pending timeout callback, and the user sends a text.
  A socket opens only while connecting, delivers only while open and closes once; a
  callback runs only when one is pending. An occurrence that cannot happen in a state
  leaves it as it is.
\<close>

datatype occurrence =
  Opens | Delivers string | Closes | Timeout | Sends string

fun step :: "(string \<Rightarrow> data option) \<Rightarrow> string \<Rightarrow> state \<Rightarrow> occurrence \<Rightarrow> state" where
  "step JSON_parse API_BASE s Opens =
     (if wsRef s = Some CONNECTING then onopen (s\<lparr>wsRef := Some OPEN\<rparr>) else s)"
| "step JSON_parse API_BASE s (Delivers raw) =
     (if wsRef s = Some OPEN then onmessage JSON_parse API_BASE s raw else s)"
| "step JSON_parse API_BASE s Closes =
     (if wsRef s \<noteq> None \<and> wsRef s \<noteq> Some CLOSED
      then onclose (s\<lparr>wsRef := Some CLOSED\<rparr>) else s)"
| "step JSON_parse API_BASE s Timeout =
     (if 0 < timers s then reconnect (s\<lparr>timers := timers s - 1\<rparr>) else s)"
| "step JSON_parse API_BASE s (Sends t) = sendMessage s t"

definition run :: "(string \<Rightarrow> data option) \<Rightarrow> string \<Rightarrow> state \<Rightarrow> occurrence list \<Rightarrow> state" where
  "run JSON_parse API_BASE s os = foldl (step JSON_parse API_BASE) s os"

text \<open>
  The state in which \<^verbatim>\<open>initSession\<close> leaves the component when it succeeds: the history
  and the session identifier stored, and \<^verbatim>\<open>connectWebSocket\<close> called once.
\<close>

definition mounted :: "Message list \<Rightarrow> string option \<Rightarrow> state" where
  "mounted history session =
     connectWebSocket
       \<lparr>messages = history, sessionId = session, wsRef = None, reconnectAttempts = 0,
        timers = 0, sent = []\<rparr>"

text \<open>Delivering a sequence of parsed payloads, one after the other.\<close>

definition deliver :: "string \<Rightarrow> Message list \<Rightarrow> data list \<Rightarrow> Message list" where
  "deliver API_BASE prev ds = foldl (\<lambda>ms d. handle_data API_BASE d ms) prev ds"

text \<open>A socket-origin message in the loading state.\<close>

definition loading_ws :: "Message \<Rightarrow> bool" where
  "loading_ws m = (loading m = Some True \<and> source m = Some websocket)"

text \<open>A finalized socket-origin bot message: the test of the \<^verbatim>\<open>audio_ready\<close> loop.\<close>

definition finalized_bot :: "Message \<Rightarrow> bool" where
  "finalized_bot m =
     (sender m = ''Bot'' \<and> loading m \<noteq> Some True \<and> source m = Some websocket)"

text \<open>No socket-origin message but the last is in the loading state.\<close>

definition only_last_loading :: "Message list \<Rightarrow> bool" where
  "only_last_loading ms = list_all (\<lambda>m. \<not> loading_ws m) (butlast ms)"

text \<open>The number of texts the user sends in a run.\<close>

fun sends :: "occurrence list \<Rightarrow> nat" where
  "sends [] = 0"
| "sends (Sends t # os) = Suc (sends os)"
| "sends (_ # os) = sends os"

text \<open>
  The history that \<^verbatim>\<open>initSession\<close> turns into the first message sequence: for each
  entry, the question (when truthy) as a message of the user, then the answer (when
  truthy) as a message of the bot; neither has a \<^verbatim>\<open>loading\<close> field.
\<close>

fun pastMessages :: "(string \<times> string) list \<Rightarrow> Message list" where
  "pastMessages [] = []"
| "pastMessages ((q, a) # hs) =
     (if q \<noteq> []
      then [\<lparr>sender = ''You'', text_m = q, audio = None, loading = None, avatarUrl = None,
             source = Some user\<rparr>]
      else [])
     @ (if a \<noteq> []
        then [\<lparr>sender = ''Bot'', text_m = a, audio = None, loading = None, avatarUrl = None,
               source = Some websocket\<rparr>]
        else [])
     @ pastMessages hs"

text \<open>
  An occurrence that appends a message behind a pending placeholder: the last message is
  a loading socket-origin message and either the user sends a text, or the socket closes
  with the reconnect attempts used up.
\<close>

definition behind_placeholder :: "state \<Rightarrow> occurrence \<Rightarrow> bool" where
  "behind_placeholder s oc =
     (lastLoading (messages s)
      \<and> (case oc of
            Sends t \<Rightarrow> True
          | Closes \<Rightarrow>
              wsRef s \<noteq> None \<and> wsRef s \<noteq> Some CLOSED
                \<and> \<not> reconnectAttempts s < maxReconnectAttempts
          | _ \<Rightarrow> False))"

text \<open>A run in which no occurrence appends behind a pending placeholder.\<close>

fun unhurried ::
  "(string \<Rightarrow> data option) \<Rightarrow> string \<Rightarrow> state \<Rightarrow> occurrence list \<Rightarrow> bool" where
  "unhurried JSON_parse API_BASE s [] = True"
| "unhurried JSON_parse API_BASE s (oc # os) =
     (\<not> behind_placeholder s oc
      \<and> unhurried JSON_parse API_BASE (step JSON_parse API_BASE s oc) os)"

section \<open>Auxiliary facts\<close>

lemma update_last: "xs \<noteq> [] \<Longrightarrow> xs[length xs - Suc 0 := m] = butlast xs @ [m]"
  by (induction xs) (auto split: nat.splits)

lemma partial_text_step:
  assumes "\<not> truthy (error p)" and "event p = Some ''partial_text''"
  shows "lastLoading (handle_data A p ms)
       \<and> text_m (last (handle_data A p ms)) =
           (if lastLoading ms then text_m (last ms) else []) @ text_d p"
  using assms
  by (simp add: handle_data_def on_partial_text_def update_last lastLoading_def)

lemma deliver_snoc: "deliver A prev (ps @ [p]) = handle_data A p (deliver A prev ps)"
  by (simp add: deliver_def)

lemma deliver_partials:
  assumes "\<forall>p \<in> set ps. \<not> truthy (error p) \<and> event p = Some ''partial_text''"
    and "lastLoading prev \<or> ps \<noteq> []"
  shows "lastLoading (deliver A prev ps)
       \<and> text_m (last (deliver A prev ps)) =
           (if lastLoading prev then text_m (last prev) else []) @ concat (map text_d ps)"
  using assms
proof (induction ps rule: rev_induct)
  case Nil
  then show ?case by (simp add: deliver_def)
next
  case (snoc p ps)
  have p: "\<not> truthy (error p)" "event p = Some ''partial_text''"
    using snoc.prems by simp_all
  show ?case
  proof (cases "lastLoading prev \<or> ps \<noteq> []")
    case True
    with snoc have ih: "lastLoading (deliver A prev ps)"
      "text_m (last (deliver A prev ps)) =
         (if lastLoading prev then text_m (last prev) else []) @ concat (map text_d ps)"
      by simp_all
    show ?thesis
      using partial_text_step [OF p, of A "deliver A prev ps"] ih
      by (simp add: deliver_snoc)
  next
    case False
    then have "ps = []" "\<not> lastLoading prev" by simp_all
    then show ?thesis
      using partial_text_step [OF p, of A prev]
      by (simp add: deliver_def)
  qed
qed

lemma done_last:
  assumes "\<not> truthy (error d)" and "event d = Some ''done''"
  shows "handle_data A d ms \<noteq> []
       \<and> last (handle_data A d ms) =
           \<lparr>sender = ''Bot'', text_m = js_or (answer d) no_answer,
            audio = audioUrl A (audio_url d), loading = Some False,
            avatarUrl = None, source = Some websocket\<rparr>
       \<and> butlast (handle_data A d ms) = (if lastLoading ms then butlast ms else ms)"
  using assms
  by (simp add: handle_data_def on_done_def update_last lastLoading_def)

section \<open>Streaming a reply: \<^verbatim>\<open>partial_text\<close> events, then \<^verbatim>\<open>done\<close>\<close>

text \<open>
  Claim C1, as the code has it. After any sequence of \<^verbatim>\<open>partial_text\<close> payloads and a
  \<^verbatim>\<open>done\<close> payload, the sequence is not empty and the text of its last message is the
  answer of \<^verbatim>\<open>done\<close> when that is a non-empty string, and the fixed text
  \<open>I couldn't generate an answer.\<close> when \<^verbatim>\<open>done\<close> has no answer or an empty one; the
  message is no longer loading. The concatenation of the fragments (after the text the
  trailing loading message had before them) is the text of the trailing loading message
  until \<^verbatim>\<open>done\<close> arrives, and \<^verbatim>\<open>done\<close> discards it.
\<close>

theorem partial_texts_then_done:
  assumes "\<forall>p \<in> set ps. \<not> truthy (error p) \<and> event p = Some ''partial_text''"
    and "\<not> truthy (error d)" and "event d = Some ''done''"
  shows "handle_data A d (deliver A prev ps) \<noteq> []
       \<and> text_m (last (handle_data A d (deliver A prev ps))) =
           (case answer d of
              None \<Rightarrow> ''I couldn't generate an answer.''
            | Some a \<Rightarrow> if a \<noteq> [] then a else ''I couldn't generate an answer.'')
       \<and> loading (last (handle_data A d (deliver A prev ps))) = Some False
       \<and> (lastLoading prev \<or> ps \<noteq> [] \<longrightarrow>
            lastLoading (deliver A prev ps)
          \<and> text_m (last (deliver A prev ps)) =
              (if lastLoading prev then text_m (last prev) else []) @ concat (map text_d ps))"
  using done_last [OF assms(2,3), of A "deliver A prev ps"]
    deliver_partials [OF assms(1), of prev A]
  by (simp add: js_or_def no_answer_def split: option.splits)

text \<open>
  The example of the specification: after \<open>Hello\<close> is sent, \<^verbatim>\<open>partial_text\<close> with \<open>Hi\<close>
  and \<^verbatim>\<open>done\<close> with the answer \<open>Hi there\<close> leave the user's message and the bot's answer.
\<close>

theorem partial_texts_then_done_witness:
  "handle_data ''http://127.0.0.1:8000''
     \<lparr>error = None, event = Some ''done'', text_d = [], answer = Some ''Hi there'',
      audio_url = None, message = None\<rparr>
     (deliver ''http://127.0.0.1:8000'' [user_message ''Hello'', placeholder]
        [\<lparr>error = None, event = Some ''partial_text'', text_d = ''Hi'', answer = None,
          audio_url = None, message = None\<rparr>]) =
   [user_message ''Hello'',
    \<lparr>sender = ''Bot'', text_m = ''Hi there'', audio = None, loading = Some False,
     avatarUrl = None, source = Some websocket\<rparr>]
   \<and> text_m (last (deliver ''http://127.0.0.1:8000'' [user_message ''Hello'', placeholder]
        [\<lparr>error = None, event = Some ''partial_text'', text_d = ''Hi'', answer = None,
          audio_url = None, message = None\<rparr>])) = ''Hi''"
  using partial_texts_then_done
    [of "[\<lparr>error = None, event = Some ''partial_text'', text_d = ''Hi'', answer = None,
          audio_url = None, message = None\<rparr>]"
        "\<lparr>error = None, event = Some ''done'', text_d = [], answer = Some ''Hi there'',
      audio_url = None, message = None\<rparr>" "''http://127.0.0.1:8000''"
        "[user_message ''Hello'', placeholder]"]
  by (simp add: deliver_def handle_data_def truthy_def on_partial_text_def on_done_def
      lastLoading_def placeholder_def user_message_def js_or_def audioUrl_def)

text \<open>
  Claim C1 as stated fails: with the fragments \<open>Hi\<close> and \<open> there\<close> and a \<^verbatim>\<open>done\<close> payload
  without an answer, the final text is the fixed text, not the concatenation.
\<close>

theorem done_without_answer_counterexample:
  "text_m (last (handle_data ''http://127.0.0.1:8000''
     \<lparr>error = None, event = Some ''done'', text_d = [], answer = None,
      audio_url = None, message = None\<rparr>
     (deliver ''http://127.0.0.1:8000'' [user_message ''Hello'', placeholder]
        [\<lparr>error = None, event = Some ''partial_text'', text_d = ''Hi'', answer = None,
          audio_url = None, message = None\<rparr>,
         \<lparr>error = None, event = Some ''partial_text'', text_d = '' there'', answer = None,
          audio_url = None, message = None\<rparr>]))) = ''I couldn't generate an answer.''
   \<and> ''I couldn't generate an answer.'' \<noteq> concat [''Hi'', '' there'']"
  by (simp add: deliver_def handle_data_def truthy_def on_partial_text_def on_done_def
      lastLoading_def placeholder_def user_message_def js_or_def audioUrl_def no_answer_def)

section \<open>\<^verbatim>\<open>sendMessage\<close>\<close>

text \<open>
  Claim C3. In every state whose socket is not open (there is none, or its \<^verbatim>\<open>readyState\<close>
  is not \<^verbatim>\<open>OPEN\<close>), \<open>sendMessage s t\<close> leaves the session identifier as it is, appends
  exactly the one error message and hands nothing to \<^verbatim>\<open>send\<close>.
\<close>

theorem sendMessage_not_open:
  assumes "wsRef s \<noteq> Some OPEN"
  shows "sessionId (sendMessage s t) = sessionId s
       \<and> messages (sendMessage s t) =
           messages s @
             [\<lparr>sender = ''Bot'', text_m = ''Connection lost. Please try again.'',
               audio = None, loading = Some False, avatarUrl = None,
               source = Some websocket\<rparr>]
       \<and> sent (sendMessage s t) = sent s"
  using assms by (simp add: sendMessage_def try_again_def)

theorem sendMessage_not_open_witness:
  "sessionId (sendMessage (mounted [] (Some ''s1'')) ''Hello'') = Some ''s1''
   \<and> messages (sendMessage (mounted [] (Some ''s1'')) ''Hello'') =
       [\<lparr>sender = ''Bot'', text_m = ''Connection lost. Please try again.'',
         audio = None, loading = Some False, avatarUrl = None,
         source = Some websocket\<rparr>]
   \<and> sent (sendMessage (mounted [] (Some ''s1'')) ''Hello'') = []"
  using sendMessage_not_open [of "mounted [] (Some ''s1'')" "''Hello''"]
  by (simp add: mounted_def connectWebSocket_def)

text \<open>
  Claim C4. In every state whose session identifier is set (a non-empty string: the guard
  \<^verbatim>\<open>!sessionId\<close> takes the empty string for no identifier) and whose socket is open,
  \<open>sendMessage s t\<close> appends the user's message with the text \<open>t\<close> and then the loading
  placeholder of the bot, with the empty text and the source \<open>websocket\<close>, and hands to
  \<^verbatim>\<open>send\<close> the envelope of the session identifier and \<open>t\<close> as the question.
\<close>

theorem sendMessage_open:
  assumes "sessionId s = Some sid" and "sid \<noteq> []" and "wsRef s = Some OPEN"
  shows "messages (sendMessage s t) =
           messages s @
             [\<lparr>sender = ''You'', text_m = t, audio = None, loading = None,
               avatarUrl = None, source = Some user\<rparr>,
              \<lparr>sender = ''Bot'', text_m = [], audio = None, loading = Some True,
               avatarUrl = None, source = Some websocket\<rparr>]
       \<and> sent (sendMessage s t) = sent s @ [\<lparr>session_id = sid, question = t\<rparr>]
       \<and> sessionId (sendMessage s t) = sessionId s"
  using assms
  by (simp add: sendMessage_def truthy_def js_string_def user_message_def placeholder_def)

theorem sendMessage_open_witness:
  "messages (sendMessage (run (\<lambda>raw. None) [] (mounted [] (Some ''s1'')) [Opens]) ''Hello'') =
      [\<lparr>sender = ''You'', text_m = ''Hello'', audio = None, loading = None,
        avatarUrl = None, source = Some user\<rparr>,
       \<lparr>sender = ''Bot'', text_m = [], audio = None, loading = Some True,
        avatarUrl = None, source = Some websocket\<rparr>]
   \<and> sent (sendMessage (run (\<lambda>raw. None) [] (mounted [] (Some ''s1'')) [Opens]) ''Hello'') =
      [\<lparr>session_id = ''s1'', question = ''Hello''\<rparr>]"
  using sendMessage_open
    [of "run (\<lambda>raw. None) [] (mounted [] (Some ''s1'')) [Opens]" "''s1''" "''Hello''"]
  by (simp add: run_def mounted_def connectWebSocket_def onopen_def)

section \<open>Payloads that do not parse, and error events\<close>

text \<open>
  Claim C7. When \<^verbatim>\<open>JSON.parse\<close> fails on the payload, \<open>onmessage\<close> returns the state it
  was given: the message sequence and every other component are as before.
\<close>

theorem onmessage_parse_failure:
  assumes "JSON_parse raw = None"
  shows "onmessage JSON_parse API_BASE s raw = s"
  using assms by (simp add: onmessage_def)

theorem onmessage_parse_failure_witness:
  "onmessage (\<lambda>raw. None) ''http://127.0.0.1:8000'' (mounted [placeholder] None) ''{oops'' =
     mounted [placeholder] None"
  using onmessage_parse_failure
    [of "\<lambda>raw. None" "''{oops''" "''http://127.0.0.1:8000''" "mounted [placeholder] None"]
  by simp

text \<open>
  Claim C8. For a payload with a truthy \<^verbatim>\<open>error\<close> member, or with the event
  \<^verbatim>\<open>audio_error\<close>: when the last message is a loading socket-origin message, the handler
  puts in its place a bot message that is not loading and carries the error text, and all
  messages before it stay and nothing is appended; otherwise the sequence is unchanged.
\<close>

theorem error_events_replace_placeholder:
  assumes "truthy (error d) \<or> event d = Some ''audio_error''"
  shows "handle_data API_BASE d ms =
           (if lastLoading ms
            then butlast ms @
                   [\<lparr>sender = ''Bot'',
                     text_m = (if truthy (error d) then ''Error: '' @ js_string (error d)
                               else ''Error generating audio: '' @ js_string (message d)),
                     audio = None, loading = Some False, avatarUrl = None,
                     source = Some websocket\<rparr>]
            else ms)"
  using assms
  by (auto simp add: handle_data_def on_error_def on_audio_error_def update_last lastLoading_def)

theorem error_events_replace_placeholder_witness:
  "handle_data ''http://127.0.0.1:8000''
     \<lparr>error = None, event = Some ''audio_error'', text_d = [], answer = None,
      audio_url = None, message = Some ''tts down''\<rparr>
     [user_message ''Hello'', placeholder] =
   [user_message ''Hello'',
    \<lparr>sender = ''Bot'', text_m = ''Error generating audio: tts down'', audio = None,
     loading = Some False, avatarUrl = None, source = Some websocket\<rparr>]
   \<and> handle_data ''http://127.0.0.1:8000''
     \<lparr>error = Some ''boom'', event = None, text_d = [], answer = None,
      audio_url = None, message = None\<rparr>
     [user_message ''Hello''] = [user_message ''Hello'']"
  using error_events_replace_placeholder
    [of "\<lparr>error = None, event = Some ''audio_error'', text_d = [], answer = None,
      audio_url = None, message = Some ''tts down''\<rparr>" "''http://127.0.0.1:8000''"
      "[user_message ''Hello'', placeholder]"]
    error_events_replace_placeholder
    [of "\<lparr>error = Some ''boom'', event = None, text_d = [], answer = None,
      audio_url = None, message = None\<rparr>" "''http://127.0.0.1:8000''"
      "[user_message ''Hello'']"]
  by (simp add: truthy_def js_string_def lastLoading_def placeholder_def user_message_def)

section \<open>\<^verbatim>\<open>done\<close> without a loading placeholder\<close>

text \<open>
  Claim C10. When the last message is not a loading socket-origin message (or there is
  none), a \<^verbatim>\<open>done\<close> payload appends one message and changes nothing else: a bot message
  of source \<open>websocket\<close> that is not loading, whose text is the answer, or the fallback text
  when the answer is absent (\<^verbatim>\<open>||\<close> takes the empty answer for an absent one), and
  whose audio reference is the resolved \<^verbatim>\<open>audio_url\<close>, if any.
\<close>

theorem done_without_placeholder:
  assumes "\<not> lastLoading ms" and "\<not> truthy (error d)" and "event d = Some ''done''"
  shows "handle_data API_BASE d ms =
           ms @ [\<lparr>sender = ''Bot'',
                  text_m = (case answer d of
                              None \<Rightarrow> ''I couldn't generate an answer.''
                            | Some a \<Rightarrow>
                                if a \<noteq> [] then a else ''I couldn't generate an answer.''),
                  audio = audioUrl API_BASE (audio_url d), loading = Some False,
                  avatarUrl = None, source = Some websocket\<rparr>]"
  using assms
  by (simp add: handle_data_def on_done_def js_or_def no_answer_def split: option.splits)

theorem done_without_placeholder_witness:
  "handle_data ''http://127.0.0.1:8000''
     \<lparr>error = None, event = Some ''done'', text_d = [], answer = Some ''Hi there'',
      audio_url = Some ''/audio/1.mp3'', message = None\<rparr>
     [user_message ''Hello''] =
   [user_message ''Hello'',
    \<lparr>sender = ''Bot'', text_m = ''Hi there'',
     audio = Some ''http://127.0.0.1:8000/audio/1.mp3'', loading = Some False,
     avatarUrl = None, source = Some websocket\<rparr>]
   \<and> handle_data ''http://127.0.0.1:8000''
     \<lparr>error = None, event = Some ''done'', text_d = [], answer = None,
      audio_url = None, message = None\<rparr> [] =
   [\<lparr>sender = ''Bot'', text_m = ''I couldn't generate an answer.'', audio = None,
     loading = Some False, avatarUrl = None, source = Some websocket\<rparr>]"
  using done_without_placeholder
    [of "[user_message ''Hello'']"
      "\<lparr>error = None, event = Some ''done'', text_d = [], answer = Some ''Hi there'',
      audio_url = Some ''/audio/1.mp3'', message = None\<rparr>" "''http://127.0.0.1:8000''"]
    done_without_placeholder
    [of "[]"
      "\<lparr>error = None, event = Some ''done'', text_d = [], answer = None,
      audio_url = None, message = None\<rparr>" "''http://127.0.0.1:8000''"]
  by (simp add: truthy_def lastLoading_def user_message_def audioUrl_def)

section \<open>The \<^verbatim>\<open>audio_ready\<close> event\<close>

lemma loop_spec:
  "n \<le> length ms \<Longrightarrow>
     length (audio_ready_loop a ms n) = length ms
   \<and> (\<forall>i<length ms. audio_ready_loop a ms n ! i =
         (if i < n \<and> finalized_bot (ms ! i) \<and> (\<forall>j. i < j \<and> j < n \<longrightarrow> \<not> finalized_bot (ms ! j))
          then (ms ! i)\<lparr>audio := a\<rparr> else ms ! i))"
proof (induction n)
  case 0
  then show ?case by simp
next
  case (Suc n)
  show ?case
  proof (cases "finalized_bot (ms ! n)")
    case True
    then have eq: "audio_ready_loop a ms (Suc n) = ms[n := (ms ! n)\<lparr>audio := a\<rparr>]"
      by (simp add: finalized_bot_def)
    show ?thesis
      unfolding eq using True Suc.prems
      by (auto simp add: nth_list_update)
  next
    case False
    then have eq: "audio_ready_loop a ms (Suc n) = audio_ready_loop a ms n"
      by (auto simp add: finalized_bot_def)
    have same: "(i < Suc n \<and> finalized_bot (ms ! i) \<and> (\<forall>j. i < j \<and> j < Suc n \<longrightarrow> \<not> finalized_bot (ms ! j)))
        = (i < n \<and> finalized_bot (ms ! i) \<and> (\<forall>j. i < j \<and> j < n \<longrightarrow> \<not> finalized_bot (ms ! j)))" for i
      using False by (metis less_Suc_eq)
    show ?thesis
      unfolding eq same using Suc by simp
  qed
qed

lemma loop_shape:
  "n \<le> length ms \<Longrightarrow>
     audio_ready_loop a ms n = ms
   \<or> (\<exists>i<n. finalized_bot (ms ! i) \<and> audio_ready_loop a ms n = ms[i := (ms ! i)\<lparr>audio := a\<rparr>])"
proof (induction n)
  case 0
  then show ?case by simp
next
  case (Suc n)
  show ?case
  proof (cases "finalized_bot (ms ! n)")
    case True
    then have "audio_ready_loop a ms (Suc n) = ms[n := (ms ! n)\<lparr>audio := a\<rparr>]"
      by (simp add: finalized_bot_def)
    with True show ?thesis by blast
  next
    case False
    then have "audio_ready_loop a ms (Suc n) = audio_ready_loop a ms n"
      by (auto simp add: finalized_bot_def)
    with Suc show ?thesis using less_Suc_eq by auto
  qed
qed

lemma audio_ready_data:
  assumes "\<not> truthy (error d)" and "event d = Some ''audio_ready''"
  shows "handle_data A d ms = audio_ready_loop (audioUrl A (audio_url d)) ms (length ms)"
  using assms by (simp add: handle_data_def on_audio_ready_def)

text \<open>
  Claim C5, as the code has it. The loop of \<^verbatim>\<open>audio_ready\<close> looks for a bot message of
  source \<open>websocket\<close> that is not loading. When the sequence has no such finalized
  message, handling \<^verbatim>\<open>audio_ready\<close> leaves the sequence unchanged.
\<close>

theorem audio_ready_without_finalized:
  assumes "\<forall>m \<in> set ms. \<not> finalized_bot m"
    and "\<not> truthy (error d)" and "event d = Some ''audio_ready''"
  shows "handle_data A d ms = ms"
proof (rule nth_equalityI)
  show "length (handle_data A d ms) = length ms"
    using loop_spec [of "length ms" ms "audioUrl A (audio_url d)"]
    by (simp add: audio_ready_data [OF assms(2,3)])
next
  fix i assume "i < length (handle_data A d ms)"
  then have i: "i < length ms"
    using loop_spec [of "length ms" ms "audioUrl A (audio_url d)"]
    by (simp add: audio_ready_data [OF assms(2,3)])
  then have "\<not> finalized_bot (ms ! i)" using assms(1) by simp
  then show "handle_data A d ms ! i = ms ! i"
    using loop_spec [of "length ms" ms "audioUrl A (audio_url d)"] i
    by (simp add: audio_ready_data [OF assms(2,3)])
qed

theorem audio_ready_without_finalized_witness:
  "handle_data ''http://127.0.0.1:8000''
       \<lparr>error = None, event = Some ''audio_ready'', text_d = [], answer = None,
        audio_url = Some ''/audio/1.mp3'', message = None\<rparr>
       [user_message ''Hello'', placeholder] = [user_message ''Hello'', placeholder]"
  using audio_ready_without_finalized
    [of "[user_message ''Hello'', placeholder]"
      "\<lparr>error = None, event = Some ''audio_ready'', text_d = [], answer = None,
        audio_url = Some ''/audio/1.mp3'', message = None\<rparr>" "''http://127.0.0.1:8000''"]
  by (simp add: finalized_bot_def user_message_def placeholder_def truthy_def)

text \<open>
  Claim C5 as stated fails: in a sequence without any loading message, \<^verbatim>\<open>audio_ready\<close>
  changes the finalized bot message, which gets the audio reference.
\<close>

theorem audio_ready_changes_finalized_counterexample:
  "list_all (\<lambda>m. loading m \<noteq> Some True)
     [user_message ''Hello'',
      \<lparr>sender = ''Bot'', text_m = ''Hi there'', audio = None, loading = Some False,
       avatarUrl = None, source = Some websocket\<rparr>]
   \<and> handle_data ''http://127.0.0.1:8000''
       \<lparr>error = None, event = Some ''audio_ready'', text_d = [], answer = None,
        audio_url = Some ''/audio/1.mp3'', message = None\<rparr>
       [user_message ''Hello'',
        \<lparr>sender = ''Bot'', text_m = ''Hi there'', audio = None, loading = Some False,
         avatarUrl = None, source = Some websocket\<rparr>] =
     [user_message ''Hello'',
      \<lparr>sender = ''Bot'', text_m = ''Hi there'',
       audio = Some ''http://127.0.0.1:8000/audio/1.mp3'', loading = Some False,
       avatarUrl = None, source = Some websocket\<rparr>]"
  by (simp add: handle_data_def truthy_def on_audio_ready_def audioUrl_def user_message_def
      numeral_2_eq_2)

text \<open>
  Claim C6, as the code has it. Handling \<^verbatim>\<open>audio_ready\<close> keeps the length of the
  sequence and sets the audio reference of exactly one message, the last finalized bot
  message of source \<open>websocket\<close>, to the resolved reference of the event, whether or not
  that message had an audio reference before; every other message is as it was (and so is
  the whole sequence when it has no finalized bot message).
\<close>

theorem audio_ready_attaches_to_last_finalized:
  assumes "\<not> truthy (error d)" and "event d = Some ''audio_ready''"
  shows "length (handle_data A d ms) = length ms
       \<and> (\<forall>i<length ms. handle_data A d ms ! i =
             (if finalized_bot (ms ! i)
                 \<and> (\<forall>j. i < j \<and> j < length ms \<longrightarrow> \<not> finalized_bot (ms ! j))
              then (ms ! i)\<lparr>audio := audioUrl A (audio_url d)\<rparr> else ms ! i))"
  using loop_spec [of "length ms" ms "audioUrl A (audio_url d)"]
  by (simp add: audio_ready_data [OF assms])

theorem audio_ready_attaches_to_last_finalized_witness:
  "handle_data ''http://127.0.0.1:8000''
       \<lparr>error = None, event = Some ''audio_ready'', text_d = [], answer = None,
        audio_url = Some ''/audio/1.mp3'', message = None\<rparr>
       [\<lparr>sender = ''Bot'', text_m = ''Hi there'', audio = None, loading = Some False,
         avatarUrl = None, source = Some websocket\<rparr>,
        user_message ''Thanks''] ! 0 =
     \<lparr>sender = ''Bot'', text_m = ''Hi there'',
      audio = Some ''http://127.0.0.1:8000/audio/1.mp3'', loading = Some False,
      avatarUrl = None, source = Some websocket\<rparr>
   \<and> handle_data ''http://127.0.0.1:8000''
       \<lparr>error = None, event = Some ''audio_ready'', text_d = [], answer = None,
        audio_url = Some ''/audio/1.mp3'', message = None\<rparr>
       [\<lparr>sender = ''Bot'', text_m = ''Hi there'', audio = None, loading = Some False,
         avatarUrl = None, source = Some websocket\<rparr>,
        user_message ''Thanks''] ! 1 = user_message ''Thanks''"
  using audio_ready_attaches_to_last_finalized
    [of "\<lparr>error = None, event = Some ''audio_ready'', text_d = [], answer = None,
        audio_url = Some ''/audio/1.mp3'', message = None\<rparr>" "''http://127.0.0.1:8000''"
      "[\<lparr>sender = ''Bot'', text_m = ''Hi there'', audio = None, loading = Some False,
         avatarUrl = None, source = Some websocket\<rparr>,
        user_message ''Thanks'']"]
  by (simp add: handle_data_def on_audio_ready_def numeral_2_eq_2 user_message_def truthy_def
      audioUrl_def)

text \<open>
  Claim C6 as stated fails: of two finalized bot messages, the first without an audio
  reference and the second with one, \<^verbatim>\<open>audio_ready\<close> overwrites the reference of the
  second and leaves the first, which lacks one, without.
\<close>

theorem audio_ready_overwrites_counterexample:
  "handle_data ''http://127.0.0.1:8000''
       \<lparr>error = None, event = Some ''audio_ready'', text_d = [], answer = None,
        audio_url = Some ''http://cdn/new.mp3'', message = None\<rparr>
       [\<lparr>sender = ''Bot'', text_m = ''first'', audio = None, loading = Some False,
         avatarUrl = None, source = Some websocket\<rparr>,
        \<lparr>sender = ''Bot'', text_m = ''second'', audio = Some ''http://cdn/old.mp3'',
         loading = Some False, avatarUrl = None, source = Some websocket\<rparr>] =
     [\<lparr>sender = ''Bot'', text_m = ''first'', audio = None, loading = Some False,
       avatarUrl = None, source = Some websocket\<rparr>,
      \<lparr>sender = ''Bot'', text_m = ''second'', audio = Some ''http://cdn/new.mp3'',
       loading = Some False, avatarUrl = None, source = Some websocket\<rparr>]"
  by (simp add: handle_data_def truthy_def on_audio_ready_def audioUrl_def numeral_2_eq_2)

section \<open>Loading messages in the sequence\<close>

lemma only_last_snoc: "only_last_loading (butlast ms @ [m]) = list_all (\<lambda>m. \<not> loading_ws m) (butlast ms)"
  by (simp add: only_last_loading_def)

lemma only_last_append:
  assumes "only_last_loading ms" and "\<not> lastLoading ms"
  shows "only_last_loading (ms @ [m])"
proof (cases "ms = []")
  case True
  then show ?thesis by (simp add: only_last_loading_def)
next
  case False
  have "\<not> loading_ws (last ms)"
    using assms(2) False by (simp add: lastLoading_def loading_ws_def)
  then have "list_all (\<lambda>m. \<not> loading_ws m) (butlast ms @ [last ms])"
    using assms(1) by (simp add: only_last_loading_def)
  then have "list_all (\<lambda>m. \<not> loading_ws m) ms"
    using False by simp
  then show ?thesis by (simp add: only_last_loading_def)
qed

lemma only_last_update:
  assumes "only_last_loading ms" and "\<not> loading_ws x"
  shows "only_last_loading (ms[i := x])"
proof -
  have "set ((butlast ms)[i := x]) \<subseteq> insert x (set (butlast ms))"
    by (rule set_update_subset_insert)
  then show ?thesis
    using assms by (auto simp add: only_last_loading_def butlast_list_update list_all_iff)
qed

lemma handle_data_shape:
  "(\<exists>ys. handle_data A d ms = ms @ ys)
   \<or> (lastLoading ms \<and> (\<exists>m. handle_data A d ms = butlast ms @ [m]))
   \<or> (\<exists>i a. i < length ms \<and> finalized_bot (ms ! i)
         \<and> handle_data A d ms = ms[i := (ms ! i)\<lparr>audio := a\<rparr>])"
  using loop_shape [of "length ms" ms "audioUrl A (audio_url d)"]
  by (auto simp add: handle_data_def on_error_def on_partial_text_def on_done_def
      on_audio_ready_def on_audio_error_def update_last lastLoading_def)

lemma handle_data_only_last:
  assumes "only_last_loading ms"
  shows "only_last_loading (handle_data A d ms)"
proof -
  have ar: "only_last_loading (on_audio_ready a ms)" for a
    using loop_shape [of "length ms" ms a] assms
    by (auto simp add: on_audio_ready_def finalized_bot_def loading_ws_def
        intro!: only_last_update)
  have l: "lastLoading ms \<Longrightarrow> only_last_loading (ms[length ms - Suc 0 := m])" for m
    using assms by (simp add: update_last lastLoading_def only_last_snoc only_last_loading_def)
  show ?thesis
    using assms ar l
    by (auto simp add: handle_data_def on_error_def on_partial_text_def on_done_def
        on_audio_error_def only_last_append)
qed

lemma only_last_all:
  assumes "only_last_loading ms" and "\<not> lastLoading ms"
  shows "list_all (\<lambda>m. \<not> loading_ws m) ms"
proof (cases "ms = []")
  case True
  then show ?thesis by simp
next
  case False
  have "\<not> loading_ws (last ms)"
    using assms(2) False by (simp add: lastLoading_def loading_ws_def)
  then have "list_all (\<lambda>m. \<not> loading_ws m) (butlast ms @ [last ms])"
    using assms(1) by (simp add: only_last_loading_def)
  then show ?thesis using False by simp
qed

lemma only_last_append_any:
  assumes "only_last_loading ms" and "\<not> lastLoading ms"
    and "list_all (\<lambda>m. \<not> loading_ws m) (butlast ys)"
  shows "only_last_loading (ms @ ys)"
proof (cases "ys = []")
  case True
  then show ?thesis using assms(1) by simp
next
  case False
  then show ?thesis
    using only_last_all [OF assms(1,2)] assms(3)
    by (simp add: only_last_loading_def butlast_append)
qed

lemma step_only_last:
  assumes "only_last_loading (messages s)" and "\<not> behind_placeholder s oc"
  shows "only_last_loading (messages (step P A s oc))"
proof (cases oc)
  case Opens
  then show ?thesis using assms(1) by (simp add: onopen_def)
next
  case (Delivers raw)
  then show ?thesis
    using assms(1) handle_data_only_last
    by (simp add: onmessage_def split: option.splits)
next
  case Closes
  show ?thesis
  proof (cases "lastLoading (messages s)")
    case True
    then show ?thesis
      using assms Closes by (auto simp add: behind_placeholder_def onclose_def)
  next
    case False
    then show ?thesis
      using assms(1) Closes only_last_append_any [OF assms(1) False, of "[connection_lost]"]
      by (simp add: onclose_def)
  qed
next
  case Timeout
  then show ?thesis using assms(1) by (simp add: reconnect_def connectWebSocket_def)
next
  case (Sends t)
  then have nl: "\<not> lastLoading (messages s)"
    using assms(2) by (simp add: behind_placeholder_def)
  show ?thesis
    using Sends only_last_append_any [OF assms(1) nl, of "[try_again]"]
      only_last_append_any [OF assms(1) nl, of "[user_message t, placeholder]"]
    by (simp add: sendMessage_def user_message_def loading_ws_def)
qed

lemma run_only_last:
  assumes "only_last_loading (messages s)" and "unhurried P A s os"
  shows "only_last_loading (messages (run P A s os))"
  using assms
proof (induction os arbitrary: s)
  case Nil
  then show ?case by (simp add: run_def)
next
  case (Cons oc os)
  have r: "run P A s (oc # os) = run P A (step P A s oc) os"
    by (simp add: run_def)
  show ?case
    unfolding r using Cons.prems
    by (auto intro!: Cons.IH step_only_last)
qed

lemma pastMessages_no_loading: "list_all (\<lambda>m. \<not> loading_ws m) (pastMessages hs)"
  by (induction hs rule: pastMessages.induct) (simp_all add: loading_ws_def)

lemma pastMessages_only_last: "only_last_loading (pastMessages hs)"
  using pastMessages_no_loading [of hs]
  by (auto simp add: only_last_loading_def list_all_iff dest: in_set_butlastD)

lemma only_last_count:
  assumes "only_last_loading ms"
  shows "length (filter loading_ws ms) \<le> 1"
proof (cases "ms = []")
  case True
  then show ?thesis by simp
next
  case False
  have "filter loading_ws (butlast ms) = []"
    using assms by (simp add: only_last_loading_def list_all_iff filter_empty_conv)
  then have "length (filter loading_ws (butlast ms @ [last ms])) \<le> 1"
    by simp
  then show ?thesis using False by simp
qed

lemma only_last_index:
  assumes "only_last_loading ms" and "i < length ms" and "loading_ws (ms ! i)"
  shows "Suc i = length ms"
proof (rule ccontr)
  assume "Suc i \<noteq> length ms"
  then have i: "i < length (butlast ms)" using assms(2) by simp
  then have "butlast ms ! i \<in> set (butlast ms)" by (rule nth_mem)
  then have "\<not> loading_ws (butlast ms ! i)"
    using assms(1) by (simp add: only_last_loading_def list_all_iff)
  then show False using assms(3) i by (simp add: nth_butlast)
qed

text \<open>
  Claim C9, as the code has it. An occurrence appends behind a pending placeholder when
  the last message is a loading socket-origin message and either the user sends a text
  or the socket closes with the reconnect attempts used up. In every message sequence
  the mounted component reaches, from any history, by a run of user sends and socket
  events in which no occurrence appends behind a pending placeholder, at most one
  socket-origin message is in the loading state and any such message is the last one;
  each single occurrence that does not append behind a pending placeholder keeps that
  property. Every occurrence, whatever the state, either appends messages to the
  sequence (possibly none), or replaces the trailing loading message in place, or (for
  \<^verbatim>\<open>audio_ready\<close>) sets the audio reference of one finalized bot message in place.
\<close>

theorem operations_append_or_replace:
  "((\<exists>ys. messages (step P A s oc) = messages s @ ys)
     \<or> (lastLoading (messages s)
          \<and> (\<exists>m. messages (step P A s oc) = butlast (messages s) @ [m]))
     \<or> (\<exists>i a. i < length (messages s) \<and> finalized_bot (messages s ! i)
          \<and> messages (step P A s oc) = (messages s)[i := (messages s ! i)\<lparr>audio := a\<rparr>]))
   \<and> (only_last_loading (messages s) \<and> \<not> behind_placeholder s oc \<longrightarrow>
        only_last_loading (messages (step P A s oc)))
   \<and> (unhurried P A (mounted (pastMessages hs) session) os \<longrightarrow>
        length (filter (\<lambda>m. loading m = Some True \<and> source m = Some websocket)
          (messages (run P A (mounted (pastMessages hs) session) os))) \<le> 1
      \<and> (\<forall>i < length (messages (run P A (mounted (pastMessages hs) session) os)).
            loading (messages (run P A (mounted (pastMessages hs) session) os) ! i) = Some True
            \<and> source (messages (run P A (mounted (pastMessages hs) session) os) ! i)
                = Some websocket
            \<longrightarrow> Suc i = length (messages (run P A (mounted (pastMessages hs) session) os))))"
proof (intro conjI impI)
  show "(\<exists>ys. messages (step P A s oc) = messages s @ ys)
     \<or> (lastLoading (messages s)
          \<and> (\<exists>m. messages (step P A s oc) = butlast (messages s) @ [m]))
     \<or> (\<exists>i a. i < length (messages s) \<and> finalized_bot (messages s ! i)
          \<and> messages (step P A s oc) = (messages s)[i := (messages s ! i)\<lparr>audio := a\<rparr>])"
  proof (cases oc)
    case Opens
    then show ?thesis by (simp add: onopen_def)
  next
    case (Delivers raw)
    show ?thesis
    proof (cases "wsRef s = Some OPEN \<and> P raw \<noteq> None")
      case True
      then obtain d where d: "P raw = Some d" by blast
      have m: "messages (step P A s oc) = handle_data A d (messages s)"
        using True d Delivers by (simp add: onmessage_def)
      show ?thesis
        unfolding m using handle_data_shape [of A d "messages s"] by blast
    next
      case False
      then have "step P A s oc = s"
        using Delivers by (auto simp add: onmessage_def)
      then show ?thesis by simp
    qed
  next
    case Closes
    then show ?thesis by (simp add: onclose_def)
  next
    case Timeout
    then show ?thesis by (simp add: reconnect_def connectWebSocket_def)
  next
    case (Sends t)
    then show ?thesis by (simp add: sendMessage_def)
  qed
next
  assume "only_last_loading (messages s) \<and> \<not> behind_placeholder s oc"
  then show "only_last_loading (messages (step P A s oc))"
    using step_only_last by blast
next
  let ?ms = "messages (run P A (mounted (pastMessages hs) session) os)"
  assume u: "unhurried P A (mounted (pastMessages hs) session) os"
  have "only_last_loading (messages (mounted (pastMessages hs) session))"
    using pastMessages_only_last by (simp add: mounted_def connectWebSocket_def)
  then have ol: "only_last_loading ?ms"
    using u by (rule run_only_last)
  have lw: "loading_ws = (\<lambda>m. loading m = Some True \<and> source m = Some websocket)"
    by (rule ext) (simp add: loading_ws_def)
  show "length (filter (\<lambda>m. loading m = Some True \<and> source m = Some websocket) ?ms) \<le> 1"
    using only_last_count [OF ol] unfolding lw .
  show "\<forall>i < length ?ms.
          loading (?ms ! i) = Some True \<and> source (?ms ! i) = Some websocket
          \<longrightarrow> Suc i = length ?ms"
    using only_last_index [OF ol] by (simp add: loading_ws_def)
qed

theorem operations_append_or_replace_witness:
  "messages
     (run (\<lambda>raw. Some \<lparr>error = None, event = Some ''partial_text'', text_d = raw,
                        answer = None, audio_url = None, message = None\<rparr>)
        ''http://127.0.0.1:8000''
        (mounted (pastMessages [(''Hello'', ''Hi there'')]) (Some ''s1''))
        [Opens, Sends ''Again'', Delivers ''Hi'', Closes, Timeout]) =
     [\<lparr>sender = ''You'', text_m = ''Hello'', audio = None, loading = None,
       avatarUrl = None, source = Some user\<rparr>,
      \<lparr>sender = ''Bot'', text_m = ''Hi there'', audio = None, loading = None,
       avatarUrl = None, source = Some websocket\<rparr>,
      \<lparr>sender = ''You'', text_m = ''Again'', audio = None, loading = None,
       avatarUrl = None, source = Some user\<rparr>,
      \<lparr>sender = ''Bot'', text_m = ''Hi'', audio = None, loading = Some True,
       avatarUrl = None, source = Some websocket\<rparr>]
   \<and> length (filter (\<lambda>m. loading m = Some True \<and> source m = Some websocket)
       (messages
         (run (\<lambda>raw. Some \<lparr>error = None, event = Some ''partial_text'', text_d = raw,
                            answer = None, audio_url = None, message = None\<rparr>)
            ''http://127.0.0.1:8000''
            (mounted (pastMessages [(''Hello'', ''Hi there'')]) (Some ''s1''))
            [Opens, Sends ''Again'', Delivers ''Hi'', Closes, Timeout]))) = 1"
proof -
  let ?P = "\<lambda>raw. Some \<lparr>error = None, event = Some ''partial_text'', text_d = raw,
                        answer = None, audio_url = None, message = None\<rparr>"
  let ?os = "[Opens, Sends ''Again'', Delivers ''Hi'', Closes, Timeout]"
  let ?s0 = "mounted (pastMessages [(''Hello'', ''Hi there'')]) (Some ''s1'')"
  have u: "unhurried ?P ''http://127.0.0.1:8000'' ?s0 ?os"
    by (simp add: behind_placeholder_def mounted_def connectWebSocket_def onopen_def
        sendMessage_def truthy_def js_string_def onmessage_def handle_data_def
        on_partial_text_def lastLoading_def placeholder_def user_message_def onclose_def
        maxReconnectAttempts_def)
  have m: "messages (run ?P ''http://127.0.0.1:8000'' ?s0 ?os) =
     [\<lparr>sender = ''You'', text_m = ''Hello'', audio = None, loading = None,
       avatarUrl = None, source = Some user\<rparr>,
      \<lparr>sender = ''Bot'', text_m = ''Hi there'', audio = None, loading = None,
       avatarUrl = None, source = Some websocket\<rparr>,
      \<lparr>sender = ''You'', text_m = ''Again'', audio = None, loading = None,
       avatarUrl = None, source = Some user\<rparr>,
      \<lparr>sender = ''Bot'', text_m = ''Hi'', audio = None, loading = Some True,
       avatarUrl = None, source = Some websocket\<rparr>]"
    by (simp add: run_def mounted_def connectWebSocket_def onopen_def
        sendMessage_def truthy_def js_string_def onmessage_def handle_data_def
        on_partial_text_def lastLoading_def placeholder_def user_message_def onclose_def
        maxReconnectAttempts_def reconnect_def)
  show ?thesis
    using operations_append_or_replace
      [of ?P "''http://127.0.0.1:8000''" ?s0 Opens "[(''Hello'', ''Hi there'')]" "Some ''s1''" ?os] u
    unfolding m by simp
qed

text \<open>
  Claim C9 as stated fails. Two texts sent on the open socket before any reply leave two
  loading socket-origin messages, the first of which is not last; a text sent while the
  socket is closed, and the closing of the socket with the attempts used up, each put a
  message behind the pending placeholder, which is then loading and not last; and
  \<^verbatim>\<open>audio_ready\<close> changes a finalized message that is not last, which is neither an
  append nor a replacement of a trailing loading message.
\<close>

theorem placeholder_left_behind_counterexample:
  "messages (run (\<lambda>raw. None) ''http://127.0.0.1:8000'' (mounted [] (Some ''s1''))
       [Opens, Sends ''a'', Sends ''b'']) =
     [\<lparr>sender = ''You'', text_m = ''a'', audio = None, loading = None,
       avatarUrl = None, source = Some user\<rparr>,
      \<lparr>sender = ''Bot'', text_m = [], audio = None, loading = Some True,
       avatarUrl = None, source = Some websocket\<rparr>,
      \<lparr>sender = ''You'', text_m = ''b'', audio = None, loading = None,
       avatarUrl = None, source = Some user\<rparr>,
      \<lparr>sender = ''Bot'', text_m = [], audio = None, loading = Some True,
       avatarUrl = None, source = Some websocket\<rparr>]
   \<and> length (filter (\<lambda>m. loading m = Some True \<and> source m = Some websocket)
        (messages (run (\<lambda>raw. None) ''http://127.0.0.1:8000'' (mounted [] (Some ''s1''))
           [Opens, Sends ''a'', Sends ''b'']))) = 2
   \<and> messages (run (\<lambda>raw. None) ''http://127.0.0.1:8000'' (mounted [] (Some ''s1''))
       [Opens, Sends ''a'', Closes, Sends ''b'']) =
     [\<lparr>sender = ''You'', text_m = ''a'', audio = None, loading = None,
       avatarUrl = None, source = Some user\<rparr>,
      \<lparr>sender = ''Bot'', text_m = [], audio = None, loading = Some True,
       avatarUrl = None, source = Some websocket\<rparr>,
      \<lparr>sender = ''Bot'', text_m = ''Connection lost. Please try again.'', audio = None,
       loading = Some False, avatarUrl = None, source = Some websocket\<rparr>]
   \<and> messages (run (\<lambda>raw. None) ''http://127.0.0.1:8000'' (mounted [] (Some ''s1''))
       [Opens, Sends ''a'', Closes, Timeout, Closes, Timeout, Closes, Timeout, Closes,
        Timeout, Closes, Timeout, Closes]) =
     [\<lparr>sender = ''You'', text_m = ''a'', audio = None, loading = None,
       avatarUrl = None, source = Some user\<rparr>,
      \<lparr>sender = ''Bot'', text_m = [], audio = None, loading = Some True,
       avatarUrl = None, source = Some websocket\<rparr>,
      \<lparr>sender = ''Bot'', text_m = ''WebSocket connection lost. Please refresh the page.'',
       audio = None, loading = Some False, avatarUrl = None, source = Some websocket\<rparr>]
   \<and> messages
       (step (\<lambda>raw. Some \<lparr>error = None, event = Some ''audio_ready'', text_d = [],
                           answer = None, audio_url = Some raw, message = None\<rparr>)
          ''http://127.0.0.1:8000''
          \<lparr>messages =
             [\<lparr>sender = ''Bot'', text_m = ''Hi there'', audio = None, loading = Some False,
               avatarUrl = None, source = Some websocket\<rparr>,
              \<lparr>sender = ''You'', text_m = ''Thanks'', audio = None, loading = None,
               avatarUrl = None, source = Some user\<rparr>],
           sessionId = Some ''s1'', wsRef = Some OPEN, reconnectAttempts = 0, timers = 0,
           sent = [\<lparr>session_id = ''s1'', question = ''Hello''\<rparr>]\<rparr>
          (Delivers ''/audio/1.mp3'')) =
     [\<lparr>sender = ''Bot'', text_m = ''Hi there'',
       audio = Some ''http://127.0.0.1:8000/audio/1.mp3'', loading = Some False,
       avatarUrl = None, source = Some websocket\<rparr>,
      \<lparr>sender = ''You'', text_m = ''Thanks'', audio = None, loading = None,
       avatarUrl = None, source = Some user\<rparr>]"
  by (simp add: run_def mounted_def connectWebSocket_def onopen_def sendMessage_def truthy_def
      js_string_def placeholder_def user_message_def onclose_def reconnect_def
      maxReconnectAttempts_def try_again_def connection_lost_def onmessage_def
      handle_data_def on_audio_ready_def audioUrl_def numeral_2_eq_2)

section \<open>Reconnection\<close>

lemma step_inv:
  assumes "wsRef s \<noteq> None \<and> timers s \<le> 1 \<and> (wsRef s \<noteq> Some CLOSED \<longrightarrow> timers s = 0)"
  shows "wsRef (step P A s oc) \<noteq> None \<and> timers (step P A s oc) \<le> 1
       \<and> (wsRef (step P A s oc) \<noteq> Some CLOSED \<longrightarrow> timers (step P A s oc) = 0)"
  using assms
  by (cases oc)
    (auto simp add: onopen_def onmessage_def onclose_def reconnect_def connectWebSocket_def
      sendMessage_def split: option.splits)

lemma run_inv:
  assumes "wsRef s \<noteq> None \<and> timers s \<le> 1 \<and> (wsRef s \<noteq> Some CLOSED \<longrightarrow> timers s = 0)"
  shows "wsRef (run P A s os) \<noteq> None \<and> timers (run P A s os) \<le> 1
       \<and> (wsRef (run P A s os) \<noteq> Some CLOSED \<longrightarrow> timers (run P A s os) = 0)"
  using assms
proof (induction os arbitrary: s)
  case Nil
  then show ?case by (simp add: run_def)
next
  case (Cons oc os)
  have "run P A s (oc # os) = run P A (step P A s oc) os"
    by (simp add: run_def)
  then show ?case
    using Cons.IH [OF step_inv [OF Cons.prems]] by simp
qed

lemma run_closed:
  assumes "wsRef s = Some CLOSED" and "timers s = 0"
  shows "run P A s os = s\<lparr>messages := messages s @ replicate (sends os) try_again\<rparr>"
  using assms
proof (induction os arbitrary: s)
  case Nil
  then show ?case by (simp add: run_def)
next
  case (Cons oc os)
  have r: "run P A s (oc # os) = run P A (step P A s oc) os"
    by (simp add: run_def)
  show ?case
  proof (cases oc)
    case (Sends t)
    have st: "step P A s oc = s\<lparr>messages := messages s @ [try_again]\<rparr>"
      using Sends Cons.prems by (simp add: sendMessage_def)
    show ?thesis
      unfolding r st using Cons.prems Sends
      by (simp add: Cons.IH replicate_app_Cons_same)
  qed (use Cons r in \<open>simp_all\<close>)
qed

text \<open>
  Claim C2. In every state \<open>s\<close> the mounted component reaches, when the socket closes
  with the reconnect attempts at the ceiling of five or above: the closing appends the
  one bot message \<open>WebSocket connection lost. Please refresh the page.\<close>, and whatever
  happens afterwards, the messages after it are only the error messages
  \<open>Connection lost. Please try again.\<close> of \<open>sendMessage\<close>, one for each text sent, so
  that the messages appended since \<open>s\<close> hold the refresh message exactly once; the number
  of attempts stays what it was, the socket stays closed and no timeout is pending: no
  reconnect attempt is made any more.
\<close>

theorem terminal_message_once:
  assumes "s = run P A (mounted history session) os"
    and "wsRef s \<noteq> Some CLOSED"
    and "maxReconnectAttempts \<le> reconnectAttempts s"
  shows "messages (run P A (step P A s Closes) os') =
           messages s @
             \<lparr>sender = ''Bot'',
              text_m = ''WebSocket connection lost. Please refresh the page.'',
              audio = None, loading = Some False, avatarUrl = None,
              source = Some websocket\<rparr>
             # replicate (sends os')
                 \<lparr>sender = ''Bot'', text_m = ''Connection lost. Please try again.'',
                  audio = None, loading = Some False, avatarUrl = None,
                  source = Some websocket\<rparr>
       \<and> length (filter
             (\<lambda>m. text_m m = ''WebSocket connection lost. Please refresh the page.'')
             (drop (length (messages s)) (messages (run P A (step P A s Closes) os')))) = 1
       \<and> reconnectAttempts (run P A (step P A s Closes) os') = reconnectAttempts s
       \<and> wsRef (run P A (step P A s Closes) os') = Some CLOSED
       \<and> timers (run P A (step P A s Closes) os') = 0
       \<and> maxReconnectAttempts = 5"
proof -
  have "wsRef s \<noteq> None \<and> timers s \<le> 1 \<and> (wsRef s \<noteq> Some CLOSED \<longrightarrow> timers s = 0)"
    unfolding assms(1)
    by (rule run_inv) (simp add: mounted_def connectWebSocket_def)
  with assms(2) have live: "wsRef s \<noteq> None" "timers s = 0" by simp_all
  have st: "step P A s Closes = s\<lparr>wsRef := Some CLOSED, messages := messages s @ [connection_lost]\<rparr>"
    using live assms(2,3) by (simp add: onclose_def)
  have r: "run P A (step P A s Closes) os' =
          s\<lparr>wsRef := Some CLOSED,
            messages := messages s @ connection_lost # replicate (sends os') try_again\<rparr>"
    unfolding st using live by (simp add: run_closed)
  show ?thesis
    unfolding r using live
    by (simp add: connection_lost_def try_again_def maxReconnectAttempts_def)
qed

theorem terminal_message_once_witness:
  "messages
     (run (\<lambda>raw. None) ''http://127.0.0.1:8000''
        (step (\<lambda>raw. None) ''http://127.0.0.1:8000''
           (run (\<lambda>raw. None) ''http://127.0.0.1:8000'' (mounted [] (Some ''s1''))
              [Closes, Timeout, Closes, Timeout, Closes, Timeout, Closes, Timeout,
               Closes, Timeout])
           Closes)
        [Timeout, Sends ''Hello'', Opens, Closes, Timeout]) =
     [\<lparr>sender = ''Bot'', text_m = ''WebSocket connection lost. Please refresh the page.'',
       audio = None, loading = Some False, avatarUrl = None, source = Some websocket\<rparr>,
      \<lparr>sender = ''Bot'', text_m = ''Connection lost. Please try again.'', audio = None,
       loading = Some False, avatarUrl = None, source = Some websocket\<rparr>]
   \<and> reconnectAttempts
     (run (\<lambda>raw. None) ''http://127.0.0.1:8000''
        (step (\<lambda>raw. None) ''http://127.0.0.1:8000''
           (run (\<lambda>raw. None) ''http://127.0.0.1:8000'' (mounted [] (Some ''s1''))
              [Closes, Timeout, Closes, Timeout, Closes, Timeout, Closes, Timeout,
               Closes, Timeout])
           Closes)
        [Timeout, Sends ''Hello'', Opens, Closes, Timeout]) = 5
   \<and> wsRef
     (run (\<lambda>raw. None) ''http://127.0.0.1:8000''
        (step (\<lambda>raw. None) ''http://127.0.0.1:8000''
           (run (\<lambda>raw. None) ''http://127.0.0.1:8000'' (mounted [] (Some ''s1''))
              [Closes, Timeout, Closes, Timeout, Closes, Timeout, Closes, Timeout,
               Closes, Timeout])
           Closes)
        [Timeout, Sends ''Hello'', Opens, Closes, Timeout]) = Some CLOSED"
proof -
  let ?s = "run (\<lambda>raw. None) ''http://127.0.0.1:8000'' (mounted [] (Some ''s1''))
              [Closes, Timeout, Closes, Timeout, Closes, Timeout, Closes, Timeout,
               Closes, Timeout]"
  have s: "?s = \<lparr>messages = [], sessionId = Some ''s1'', wsRef = Some CONNECTING,
                 reconnectAttempts = 5, timers = 0, sent = []\<rparr>"
    by (simp add: run_def mounted_def connectWebSocket_def onclose_def reconnect_def
        maxReconnectAttempts_def)
  have live: "wsRef ?s \<noteq> Some CLOSED" and full: "maxReconnectAttempts \<le> reconnectAttempts ?s"
    unfolding s by (simp_all add: maxReconnectAttempts_def)
  show ?thesis
    using terminal_message_once [OF refl live full,
        of "[Timeout, Sends ''Hello'', Opens, Closes, Timeout]"]
    unfolding s by (simp add: maxReconnectAttempts_def)
qed

end
